theory Spec2Isabelle
  imports Main "HOL-Library.Multiset"
begin

section \<open>Python values\<close>

text \<open>
  A Python \<open>str\<close> is a sequence of Unicode code points, so it is modelled as a list of
  natural numbers (one per code point) and not as a list of bytes. \<open>lit\<close> turns an
  ASCII literal of the source into that representation.
\<close>

type_synonym pystr = "nat list"

type_synonym bytes = "nat list"

definition lit :: "string \<Rightarrow> pystr" where
  "lit s = map of_char s"

text \<open>The values that flow through the handlers: \<open>None\<close>, a \<open>str\<close> or an \<open>int\<close>.\<close>

datatype pyval = PNone | PStr pystr | PInt int

text \<open>Truthiness, as \<open>if x\<close> and \<open>not x\<close> test it.\<close>

fun truthy :: "pyval \<Rightarrow> bool" where
  "truthy PNone = False"
| "truthy (PStr s) = (s \<noteq> [])"
| "truthy (PInt n) = (n \<noteq> 0)"

text \<open>
  Exceptions are values. Each carries the text that \<open>str(e)\<close> returns. Only subclasses of
  \<open>Exception\<close> are modelled: the handlers of the source are \<open>except Exception\<close>, and
  interpreter exits (\<open>KeyboardInterrupt\<close>, \<open>SystemExit\<close>) are outside the model.
\<close>

datatype exc = ValueError pystr | TypeError pystr | IndexError pystr | OtherError pystr

fun str_exc :: "exc \<Rightarrow> pystr" where
  "str_exc (ValueError m) = m"
| "str_exc (TypeError m) = m"
| "str_exc (IndexError m) = m"
| "str_exc (OtherError m) = m"

text \<open>\<open>sep.join(xs)\<close>\<close>

fun join :: "pystr \<Rightarrow> pystr list \<Rightarrow> pystr" where
  "join sep [] = []"
| "join sep [x] = x"
| "join sep (x # y # ys) = x @ sep @ join sep (y # ys)"

text \<open>
  \<open>str.strip()\<close> removes leading and trailing white space; for \<open>str\<close> the white-space
  characters are the code points for which \<open>str.isspace\<close> holds.
\<close>

definition isspace :: "nat \<Rightarrow> bool" where
  "isspace c \<longleftrightarrow>
     (0x09 \<le> c \<and> c \<le> 0x0D) \<or> (0x1C \<le> c \<and> c \<le> 0x20) \<or> c = 0x85 \<or> c = 0xA0 \<or>
     c = 0x1680 \<or> (0x2000 \<le> c \<and> c \<le> 0x200A) \<or> c = 0x2028 \<or> c = 0x2029 \<or>
     c = 0x202F \<or> c = 0x205F \<or> c = 0x3000"

definition strip :: "pystr \<Rightarrow> pystr" where
  "strip s = rev (dropWhile isspace (rev (dropWhile isspace s)))"

section \<open>The thinking-tag extraction\<close>

text \<open>
  \<open>re.search(r'<thinking>(.*?)</thinking>', thinking, re.DOTALL)\<close>, as the backtracking
  matcher runs it. \<open>starts_with\<close> matches a literal at the current position.
  \<open>lazy_dot_until\<close> is the lazy \<open>(.*?)\<close> followed by the closing literal: it tries the
  literal first and only then lets the dot (which under DOTALL matches every character)
  take one more character; the result is group 1. \<open>match_at\<close> is one attempt at a fixed
  start position, and \<open>re_search\<close> moves the start position from left to right until an
  attempt succeeds.
\<close>

fun starts_with :: "'a list \<Rightarrow> 'a list \<Rightarrow> bool" where
  "starts_with [] s = True"
| "starts_with (p # ps) [] = False"
| "starts_with (p # ps) (c # cs) = (p = c \<and> starts_with ps cs)"

fun lazy_dot_until :: "'a list \<Rightarrow> 'a list \<Rightarrow> 'a list option" where
  "lazy_dot_until cl [] = (if starts_with cl [] then Some [] else None)"
| "lazy_dot_until cl (c # cs) =
     (if starts_with cl (c # cs) then Some []
      else map_option ((#) c) (lazy_dot_until cl cs))"

definition match_at :: "'a list \<Rightarrow> 'a list \<Rightarrow> 'a list \<Rightarrow> 'a list option" where
  "match_at opn cl s =
     (if starts_with opn s then lazy_dot_until cl (drop (length opn) s) else None)"

fun re_search :: "'a list \<Rightarrow> 'a list \<Rightarrow> 'a list \<Rightarrow> 'a list option" where
  "re_search opn cl [] = match_at opn cl []"
| "re_search opn cl (c # cs) =
     (case match_at opn cl (c # cs) of
        Some g \<Rightarrow> Some g
      | None \<Rightarrow> re_search opn cl cs)"

definition thinking_open :: pystr where
  "thinking_open = lit ''<thinking>''"

definition thinking_close :: pystr where
  "thinking_close = lit ''</thinking>''"

text \<open>\<open>thinking_match\<close> is \<open>None\<close> or the match's group 1.\<close>

definition thinking_match :: "pystr \<Rightarrow> pystr option" where
  "thinking_match thinking = re_search thinking_open thinking_close thinking"

definition actual_thinking :: "pystr \<Rightarrow> pystr" where
  "actual_thinking thinking =
     (case thinking_match thinking of Some g \<Rightarrow> strip g | None \<Rightarrow> thinking)"

section \<open>process\_question\<close>

text \<open>
  The collaborators that \<open>process_question\<close> imports: the registry \<open>AVAILABLE_MODELS\<close>
  (its keys), \<open>get_model_response\<close>, \<open>cot_reflection\<close>, and the two document readers
  (the page texts of \<open>PyPDF2.PdfReader\<close>, the paragraph texts of \<open>docx.Document\<close>). Each
  call may raise and may have an effect on the outside world, so each takes the world
  \<open>'w\<close> and returns the new one.
\<close>

record 'w env =
  AVAILABLE_MODELS :: "pystr list"
  get_model_response :: "pystr \<Rightarrow> pystr \<Rightarrow> 'w \<Rightarrow> (exc + pystr) \<times> 'w"
  cot_reflection :: "pystr \<Rightarrow> pystr \<Rightarrow> pystr \<Rightarrow> pystr option \<Rightarrow> pystr \<Rightarrow> 'w
                       \<Rightarrow> (exc + pystr \<times> pystr \<times> pystr) \<times> 'w"
  pdf_pages :: "bytes \<Rightarrow> 'w \<Rightarrow> (exc + pystr list) \<times> 'w"
  docx_paragraphs :: "bytes \<Rightarrow> 'w \<Rightarrow> (exc + pystr list) \<times> 'w"

text \<open>
  The returned tuple, in the order of the source: user prompt, initial response, thinking,
  reflection, final output, system prompt, chain-of-thought prompt. The last two may be
  \<open>None\<close>. The projections are named after the output components that the submit button
  wires the tuple to.
\<close>

type_synonym outputs =
  "pystr \<times> pystr \<times> pystr \<times> pystr \<times> pystr \<times> pystr option \<times> pystr option"

definition user_prompt_output :: "outputs \<Rightarrow> pystr" where
  "user_prompt_output r = (case r of (a, b, c, d, e, f, g) \<Rightarrow> a)"

definition initial_response_output :: "outputs \<Rightarrow> pystr" where
  "initial_response_output r = (case r of (a, b, c, d, e, f, g) \<Rightarrow> b)"

definition thinking_output :: "outputs \<Rightarrow> pystr" where
  "thinking_output r = (case r of (a, b, c, d, e, f, g) \<Rightarrow> c)"

definition reflection_output :: "outputs \<Rightarrow> pystr" where
  "reflection_output r = (case r of (a, b, c, d, e, f, g) \<Rightarrow> d)"

definition final_output :: "outputs \<Rightarrow> pystr" where
  "final_output r = (case r of (a, b, c, d, e, f, g) \<Rightarrow> e)"

definition system_prompt_output :: "outputs \<Rightarrow> pystr option" where
  "system_prompt_output r = (case r of (a, b, c, d, e, f, g) \<Rightarrow> f)"

definition cot_prompt_output :: "outputs \<Rightarrow> pystr option" where
  "cot_prompt_output r = (case r of (a, b, c, d, e, f, g) \<Rightarrow> g)"

text \<open>
  Reading the uploaded document (lines 52 to 66): no file gives \<open>None\<close>; otherwise the
  PDF reader is tried, and on any failure of it the DOCX reader; a failure of that one is
  replaced by the \<open>ValueError\<close> of line 66.
\<close>

definition read_error :: pystr where
  "read_error = lit ''Error reading document. Please ensure it's a valid PDF or DOCX file.''"

definition read_document ::
  "'w env \<Rightarrow> bytes option \<Rightarrow> 'w \<Rightarrow> (exc + pystr option) \<times> 'w" where
  "read_document env file w =
     (case file of
        None \<Rightarrow> (Inr None, w)
      | Some b \<Rightarrow>
          (case pdf_pages env b w of
             (Inr pages, w1) \<Rightarrow> (Inr (Some (join [10] pages)), w1)
           | (Inl e, w1) \<Rightarrow>
               (case docx_paragraphs env b w1 of
                  (Inr paragraphs, w2) \<Rightarrow> (Inr (Some (join [10] paragraphs)), w2)
                | (Inl e', w2) \<Rightarrow> (Inl (ValueError read_error), w2))))"

text \<open>\<open>doc_content\<close> of line 69: the block is there when the text is neither \<open>None\<close> nor empty.\<close>

definition doc_content :: "pystr option \<Rightarrow> pystr" where
  "doc_content document_content =
     (case document_content of
        None \<Rightarrow> []
      | Some d \<Rightarrow> if d = [] then [] else lit ''Document Content:'' @ [10] @ d @ [10, 10])"

definition initial_response_prompt :: "pystr \<Rightarrow> pystr option \<Rightarrow> pystr \<Rightarrow> pystr" where
  "initial_response_prompt system_prompt document_content user_prompt =
     system_prompt @ [10, 10] @ doc_content document_content @
     lit ''Question: '' @ user_prompt @ [10, 10] @
     lit ''Provide a concise answer to this question without any explanation or reasoning.''"

definition direct_response_prompt :: "pystr \<Rightarrow> pystr option \<Rightarrow> pystr \<Rightarrow> pystr" where
  "direct_response_prompt system_prompt document_content user_prompt =
     system_prompt @ [10, 10] @ doc_content document_content @
     lit ''Question: '' @ user_prompt @ [10, 10] @
     lit ''Analyze the question and provide a comprehensive answer.''"

text \<open>The body of the \<open>try\<close> block (lines 47 to 103): \<open>Inl\<close> is an exception that leaves it.\<close>

definition process_question_try ::
  "'w env \<Rightarrow> bytes option \<Rightarrow> pystr \<Rightarrow> pystr \<Rightarrow> pystr \<Rightarrow> pystr \<Rightarrow> bool \<Rightarrow> 'w
     \<Rightarrow> (exc + outputs) \<times> 'w" where
  "process_question_try env file user_prompt system_prompt cot_prompt selected_model
       use_default_cot w =
     (if selected_model \<notin> set (AVAILABLE_MODELS env)
      then (Inl (ValueError (lit ''Invalid model selected: '' @ selected_model)), w)
      else
        (case read_document env file w of
           (Inl e, w1) \<Rightarrow> (Inl e, w1)
         | (Inr document_content, w1) \<Rightarrow>
             if use_default_cot then
               (case get_model_response env selected_model
                       (initial_response_prompt system_prompt document_content user_prompt) w1 of
                  (Inl e, w2) \<Rightarrow> (Inl e, w2)
                | (Inr initial_response, w2) \<Rightarrow>
                    (case cot_reflection env system_prompt cot_prompt user_prompt
                            document_content selected_model w2 of
                       (Inl e, w3) \<Rightarrow> (Inl e, w3)
                     | (Inr (thinking, reflection, output), w3) \<Rightarrow>
                         (Inr (user_prompt, initial_response, actual_thinking thinking,
                               reflection, output, Some system_prompt, Some cot_prompt), w3)))
             else
               (case get_model_response env selected_model
                       (direct_response_prompt system_prompt document_content user_prompt) w1 of
                  (Inl e, w2) \<Rightarrow> (Inl e, w2)
                | (Inr direct_response, w2) \<Rightarrow>
                    (Inr (user_prompt, direct_response, [], [], [], Some system_prompt, None),
                     w2))))"

text \<open>The tuple of the \<open>except Exception\<close> handler (line 106).\<close>

definition error_outputs :: "pystr \<Rightarrow> exc \<Rightarrow> outputs" where
  "error_outputs user_prompt e =
     (user_prompt, lit ''An error occurred: '' @ str_exc e, [], [], [], None, None)"

definition process_question ::
  "'w env \<Rightarrow> bytes option \<Rightarrow> pystr \<Rightarrow> pystr \<Rightarrow> pystr \<Rightarrow> pystr \<Rightarrow> bool \<Rightarrow> 'w
     \<Rightarrow> outputs \<times> 'w" where
  "process_question env file user_prompt system_prompt cot_prompt selected_model
       use_default_cot w =
     (case process_question_try env file user_prompt system_prompt cot_prompt selected_model
             use_default_cot w of
        (Inl e, w') \<Rightarrow> (error_outputs user_prompt e, w')
      | (Inr r, w') \<Rightarrow> (r, w'))"

section \<open>The handlers over the snapshot database\<close>

text \<open>
  A row that the database hands out is a \<open>dict\<close>: an association list from keys to
  values, read with \<open>d.get(key, default)\<close>.
\<close>

type_synonym pydict = "(pystr \<times> pyval) list"

definition dict_get :: "pydict \<Rightarrow> pystr \<Rightarrow> pyval \<Rightarrow> pyval" where
  "dict_get d k dflt = (case map_of d k of Some v \<Rightarrow> v | None \<Rightarrow> dflt)"

text \<open>
  \<open>int(x)\<close>. On \<open>None\<close> it raises \<open>TypeError\<close>, on an \<open>int\<close> it is the identity, and on a
  \<open>str\<close> it is the built-in parser, which is a parameter here: it returns the number or
  raises.
\<close>

definition none_type_error :: pystr where
  "none_type_error =
     lit ''int() argument must be a string, a bytes-like object or a real number, not '' @
     [0x27] @ lit ''NoneType'' @ [0x27]"

fun py_int :: "(pystr \<Rightarrow> exc + int) \<Rightarrow> pyval \<Rightarrow> exc + int" where
  "py_int int_of_str PNone = Inl (TypeError none_type_error)"
| "py_int int_of_str (PStr s) = int_of_str s"
| "py_int int_of_str (PInt n) = Inr n"

text \<open>
  \<open>load_snapshot_by_id\<close> (lines 108 to 149). \<open>get_snapshot_by_id\<close> is the lookup of the
  database object: it raises, or returns \<open>None\<close> or a row. The inner handler catches
  \<open>ValueError\<close> only; every other exception reaches the outer handler.
\<close>

definition nine_none :: "pystr \<Rightarrow> pyval list" where
  "nine_none status = replicate 9 PNone @ [PStr status]"

definition loaded_ok :: pystr where
  "loaded_ok = 0x2713 # lit '' Snapshot loaded successfully''"

definition load_snapshot_by_id ::
  "(pystr \<Rightarrow> exc + int) \<Rightarrow> (int \<Rightarrow> exc + pydict option) \<Rightarrow> pyval \<Rightarrow> pyval list" where
  "load_snapshot_by_id int_of_str get_snapshot_by_id snapshot_id =
     (if \<not> truthy snapshot_id then nine_none (lit ''Please enter a snapshot ID to load'')
      else
        (case py_int int_of_str snapshot_id of
           Inl (ValueError m) \<Rightarrow>
             nine_none (lit ''Invalid Snapshot ID. Please enter a numeric ID.'')
         | Inl e \<Rightarrow> nine_none (lit ''Error loading snapshot: '' @ str_exc e)
         | Inr snapshot_id_int \<Rightarrow>
             (case get_snapshot_by_id snapshot_id_int of
                Inl e \<Rightarrow> nine_none (lit ''Error loading snapshot: '' @ str_exc e)
              | Inr None \<Rightarrow> nine_none (lit ''Snapshot not found'')
              | Inr (Some snapshot_data) \<Rightarrow>
                  if snapshot_data = [] then nine_none (lit ''Snapshot not found'')
                  else
                    [dict_get snapshot_data (lit ''snapshot_name'') (PStr []),
                     dict_get snapshot_data (lit ''user_prompt'') (PStr []),
                     dict_get snapshot_data (lit ''system_prompt'') (PStr []),
                     dict_get snapshot_data (lit ''model_name'') (PStr []),
                     dict_get snapshot_data (lit ''cot_prompt'') (PStr []),
                     dict_get snapshot_data (lit ''initial_response'') (PStr []),
                     dict_get snapshot_data (lit ''thinking'') (PStr []),
                     dict_get snapshot_data (lit ''reflection'') (PStr []),
                     dict_get snapshot_data (lit ''final_response'') (PStr []),
                     PStr loaded_ok])))"

text \<open>
  \<open>export_snapshot\<close> (lines 159 to 186). \<open>json_dumps\<close> stands for
  \<open>json.dumps(_, indent=2, ensure_ascii=False)\<close>.
\<close>

definition export_snapshot ::
  "(pystr \<Rightarrow> exc + int) \<Rightarrow> (int \<Rightarrow> exc + pydict option) \<Rightarrow> (pydict \<Rightarrow> exc + pystr)
     \<Rightarrow> pyval \<Rightarrow> pystr" where
  "export_snapshot int_of_str get_snapshot_by_id json_dumps snapshot_id =
     (if \<not> truthy snapshot_id then lit ''Please enter a snapshot ID to export''
      else
        (case py_int int_of_str snapshot_id of
           Inl e \<Rightarrow> lit ''Error exporting snapshot: '' @ str_exc e
         | Inr n \<Rightarrow>
             (case get_snapshot_by_id n of
                Inl e \<Rightarrow> lit ''Error exporting snapshot: '' @ str_exc e
              | Inr None \<Rightarrow> lit ''Snapshot not found''
              | Inr (Some snapshot_data) \<Rightarrow>
                  if snapshot_data = [] then lit ''Snapshot not found''
                  else
                    (case json_dumps snapshot_data of
                       Inl e \<Rightarrow> lit ''Error exporting snapshot: '' @ str_exc e
                     | Inr json_content \<Rightarrow> json_content))))"

text \<open>
  \<open>update_snapshots_table\<close> (lines 151 to 157): each row of \<open>db.get_snapshots\<close> is
  rebuilt from its first six columns; a shorter row raises \<open>IndexError\<close>.
\<close>

definition first_six :: "pyval list \<Rightarrow> exc + pyval list" where
  "first_six s =
     (if 6 \<le> length s then Inr [s ! 0, s ! 1, s ! 2, s ! 3, s ! 4, s ! 5]
      else Inl (IndexError (lit ''tuple index out of range'')))"

fun each_first_six :: "pyval list list \<Rightarrow> exc + pyval list list" where
  "each_first_six [] = Inr []"
| "each_first_six (s # ss) =
     (case first_six s of
        Inl e \<Rightarrow> Inl e
      | Inr r \<Rightarrow> (case each_first_six ss of Inl e \<Rightarrow> Inl e | Inr rs \<Rightarrow> Inr (r # rs)))"

definition update_snapshots_table ::
  "(pystr \<Rightarrow> pyval list list) \<Rightarrow> pystr \<Rightarrow> exc + pyval list list" where
  "update_snapshots_table get_snapshots search_term = each_first_six (get_snapshots search_term)"

section \<open>The snapshot store\<close>

text \<open>
  The handlers call the methods of a \<open>SnapshotDB\<close> object, a class of the module
  \<open>db_utils\<close>. That module is not part of the file modelled above, so the definitions of
  this section are written from the specification of the Snapshot Store (its sections
  3, 4.4 and 6); the method names are those that the handlers call.
\<close>

text \<open>
  Modelled from the spec: the fields that a caller passes to \<open>save\<close>, after the persisted
  record of section 6 without the two fields that the store assigns. All are strings;
  the chain-of-thought prompt may be absent.
\<close>

record snapshot_fields =
  s_name :: pystr
  s_model_name :: pystr
  s_user_prompt :: pystr
  s_system_prompt :: pystr
  s_cot_prompt :: "pystr option"
  s_initial_response :: pystr
  s_thinking :: pystr
  s_reflection :: pystr
  s_final_response :: pystr
  s_tags :: pystr

text \<open>
  Modelled from the spec: a persisted snapshot. The identifier and the creation time are
  assigned by the store; the time is a number that grows with the clock.
\<close>

record snapshot =
  s_id :: int
  s_created_at :: int
  s_content :: snapshot_fields

text \<open>
  Modelled from the spec: the state of the store, which "exclusively owns the identifier
  space and the persisted representation": the next identifier and the records in the
  order of their saves.
\<close>

record store =
  next_id :: int
  rows :: "snapshot list"

text \<open>
  Modelled from the spec: the store at the start of its lifetime. The specification does
  not say where the identifiers start; they start at 1 here.
\<close>

definition empty_store :: store where
  "empty_store = \<lparr>next_id = 1, rows = []\<rparr>"

text \<open>
  Modelled from the spec: \<open>save(record) -> id\<close> "assigns the next identifier and creation
  timestamp, persists all ReflectionResult fields plus name/model/tags, returns the new
  id". The reading of the clock is the argument \<open>now\<close>.
\<close>

definition save_snapshot :: "store \<Rightarrow> int \<Rightarrow> snapshot_fields \<Rightarrow> int \<times> store" where
  "save_snapshot st now saved =
     (next_id st,
      \<lparr>next_id = next_id st + 1,
       rows = rows st @ [\<lparr>s_id = next_id st, s_created_at = now, s_content = saved\<rparr>]\<rparr>)"

text \<open>
  Modelled from the spec: \<open>get_by_id(id) -> record | not_found\<close>, "exact lookup;
  not\_found is a normal outcome, not an error".
\<close>

definition get_snapshot_by_id :: "store \<Rightarrow> int \<Rightarrow> snapshot option" where
  "get_snapshot_by_id st i = find (\<lambda>r. s_id r = i) (rows st)"

text \<open>
  Modelled from the spec: \<open>delete(id) -> deleted: bool\<close> "removes the record if present;
  idempotent: deleting a non-existent id returns false, not an error".
\<close>

definition delete_snapshot :: "store \<Rightarrow> int \<Rightarrow> bool \<times> store" where
  "delete_snapshot st i =
     (i \<in> set (map s_id (rows st)), st\<lparr>rows := filter (\<lambda>r. s_id r \<noteq> i) (rows st)\<rparr>)"

text \<open>
  Modelled from the spec: \<open>export(id) -> full record | not_found\<close> "returns the complete
  persisted record (all fields)".
\<close>

definition export_record :: "store \<Rightarrow> int \<Rightarrow> snapshot option" where
  "export_record st i = get_snapshot_by_id st i"

text \<open>
  Modelled from the spec: the case folding of the "case-insensitive" search of
  \<open>list(search_term)\<close>, on the ASCII letters.
\<close>

definition lower :: "nat \<Rightarrow> nat" where
  "lower c = (if 0x41 \<le> c \<and> c \<le> 0x5A then c + 0x20 else c)"

text \<open>
  Modelled from the spec: "contains the term as a [...] substring"; the search string is
  looked for at every position.
\<close>

fun is_infix :: "'a list \<Rightarrow> 'a list \<Rightarrow> bool" where
  "is_infix p [] = starts_with p []"
| "is_infix p (c # cs) = (starts_with p (c # cs) \<or> is_infix p cs)"

text \<open>Modelled from the spec: "contains the term as a case-insensitive substring".\<close>

definition contains_ci :: "pystr \<Rightarrow> pystr \<Rightarrow> bool" where
  "contains_ci needle s = is_infix (map lower needle) (map lower s)"

text \<open>
  Modelled from the spec: the snapshots of a search are those "whose name, question, or
  tag list contains the term".
\<close>

definition matches :: "pystr \<Rightarrow> snapshot \<Rightarrow> bool" where
  "matches needle r \<longleftrightarrow>
     contains_ci needle (s_name (s_content r)) \<or>
     contains_ci needle (s_user_prompt (s_content r)) \<or>
     contains_ci needle (s_tags (s_content r))"

text \<open>
  Modelled from the spec: a summary "carries: id, name, created-at, model, a truncated
  preview of the question, and the tag list rendered as a single string". The length of
  the preview is not specified; it is the parameter \<open>n\<close>.
\<close>

definition summary :: "nat \<Rightarrow> snapshot \<Rightarrow> pyval list" where
  "summary n r =
     [PInt (s_id r), PStr (s_name (s_content r)), PInt (s_created_at r),
      PStr (s_model_name (s_content r)), PStr (take n (s_user_prompt (s_content r))),
      PStr (s_tags (s_content r))]"

text \<open>
  Modelled from the spec: "ordered by creation time descending". The sort is stable:
  snapshots of the same time keep the order of their saves.
\<close>

definition newest_first :: "snapshot list \<Rightarrow> snapshot list" where
  "newest_first rs = sort_key (\<lambda>r. - s_created_at r) rs"

text \<open>
  Modelled from the spec: the snapshots that \<open>list(search_term)\<close> returns, "when
  search\_term is empty, [...] all snapshots ordered by creation time descending; when
  non-empty, [...] only snapshots whose name, question, or tag list contains the term
  [...], same ordering".
\<close>

definition selected :: "store \<Rightarrow> pystr \<Rightarrow> snapshot list" where
  "selected st search_term =
     newest_first (if search_term = [] then rows st else filter (matches search_term) (rows st))"

text \<open>
  Modelled from the spec: \<open>list(search_term)\<close> returns an "ordered sequence of summaries",
  the rows that \<open>db.get_snapshots\<close> hands to the table.
\<close>

definition get_snapshots :: "nat \<Rightarrow> store \<Rightarrow> pystr \<Rightarrow> pyval list list" where
  "get_snapshots n st search_term = map (summary n) (selected st search_term)"

text \<open>
  Modelled from the spec: a lifetime of the store is a sequence of saves and deletes from
  the empty store. \<open>run_ops\<close> below collects the identifiers that the saves return.
\<close>

datatype store_op = Save int snapshot_fields | Delete int

text \<open>Modelled from the spec: the operations of a lifetime, run in their order.\<close>

fun run_ops :: "store \<Rightarrow> store_op list \<Rightarrow> int list \<times> store" where
  "run_ops st [] = ([], st)"
| "run_ops st (Save now saved # ops) =
     (case save_snapshot st now saved of
        (i, st') \<Rightarrow> (case run_ops st' ops of (ids, st'') \<Rightarrow> (i # ids, st'')))"
| "run_ops st (Delete i # ops) = run_ops (snd (delete_snapshot st i)) ops"

text \<open>Modelled from the spec: a field that is a string or absent, as a value.\<close>

definition opt_str :: "pystr option \<Rightarrow> pyval" where
  "opt_str x = (case x of None \<Rightarrow> PNone | Some s \<Rightarrow> PStr s)"

text \<open>
  Modelled from the spec: the row that the handlers receive for a persisted snapshot, with
  the fields of the persisted record of section 6. The keys are the ones that
  \<open>load_snapshot_by_id\<close> reads and the save handler writes (so the name is under
  \<open>snapshot_name\<close>), with the two fields of the store.
\<close>

definition row_dict :: "snapshot \<Rightarrow> pydict" where
  "row_dict r =
     [(lit ''id'', PInt (s_id r)),
      (lit ''snapshot_name'', PStr (s_name (s_content r))),
      (lit ''created_at'', PInt (s_created_at r)),
      (lit ''model_name'', PStr (s_model_name (s_content r))),
      (lit ''user_prompt'', PStr (s_user_prompt (s_content r))),
      (lit ''system_prompt'', PStr (s_system_prompt (s_content r))),
      (lit ''cot_prompt'', opt_str (s_cot_prompt (s_content r))),
      (lit ''initial_response'', PStr (s_initial_response (s_content r))),
      (lit ''thinking'', PStr (s_thinking (s_content r))),
      (lit ''reflection'', PStr (s_reflection (s_content r))),
      (lit ''final_response'', PStr (s_final_response (s_content r))),
      (lit ''tags'', PStr (s_tags (s_content r)))]"

text \<open>
  Modelled from the spec: the lookup as the handlers call it, \<open>db.get_snapshot_by_id\<close>; a
  miss is \<open>None\<close> and it does not raise.
\<close>

definition db_lookup :: "store \<Rightarrow> int \<Rightarrow> exc + pydict option" where
  "db_lookup st i = Inr (map_option row_dict (get_snapshot_by_id st i))"

text \<open>
  The invariant of the store: the stored identifiers are positive, below the next one,
  and pairwise distinct. It holds in the empty store and every operation keeps it.
\<close>

definition store_inv :: "store \<Rightarrow> bool" where
  "store_inv st \<longleftrightarrow>
     0 < next_id st \<and> list_all (\<lambda>r. 0 < s_id r \<and> s_id r < next_id st) (rows st) \<and>
     distinct (map s_id (rows st))"

section \<open>Specification-level notions\<close>

text \<open>
  The words of the Tag Extractor's contract: a well-formed span is an opening tag, an
  inner text and a closing tag somewhere in the text; the first span is the one that
  starts leftmost and, among those, ends first (non-greedy).
\<close>

definition is_span :: "'a list \<Rightarrow> 'a list \<Rightarrow> 'a list \<Rightarrow> 'a list \<Rightarrow> 'a list \<Rightarrow> bool" where
  "is_span opn cl text pre inner \<longleftrightarrow> (\<exists>post. text = pre @ opn @ inner @ cl @ post)"

definition first_span :: "'a list \<Rightarrow> 'a list \<Rightarrow> 'a list \<Rightarrow> 'a list \<Rightarrow> 'a list \<Rightarrow> bool" where
  "first_span opn cl text pre inner \<longleftrightarrow>
     is_span opn cl text pre inner \<and>
     (\<forall>pre' inner'. is_span opn cl text pre' inner' \<longrightarrow>
        length pre \<le> length pre' \<and>
        (length pre' = length pre \<longrightarrow> length inner \<le> length inner'))"

text \<open>A case-insensitive substring, in the words of the store's search.\<close>

definition ci_substring :: "pystr \<Rightarrow> pystr \<Rightarrow> bool" where
  "ci_substring needle s \<longleftrightarrow>
     (\<exists>pre post. map lower s = pre @ map lower needle @ post)"

section \<open>Stand-ins for the collaborators\<close>

text \<open>
  Concrete collaborators, for evaluating the handlers on examples. The world is a counter
  of the calls made. The registry holds one model; the backend and \<open>cot_reflection\<close>
  return the two results that the stand-in is built from; only the bytes \<open>%PDF\<close> read as
  a document, of two pages.
\<close>

definition stub_env :: "(exc + pystr) \<Rightarrow> (exc + pystr \<times> pystr \<times> pystr) \<Rightarrow> nat env" where
  "stub_env response cot =
     \<lparr>AVAILABLE_MODELS = [lit ''Gemini 2.0 Flash''],
      get_model_response = (\<lambda>model prompt n. (response, Suc n)),
      cot_reflection = (\<lambda>sp cp q d model n. (cot, Suc n)),
      pdf_pages = (\<lambda>b n. (if b = lit ''%PDF'' then Inr [lit ''page one'', lit ''page two'']
                            else Inl (OtherError (lit ''EOF marker not found'')), Suc n)),
      docx_paragraphs = (\<lambda>b n. (Inl (OtherError (lit ''File is not a zip file'')), Suc n))\<rparr>"

text \<open>A parser for the examples: it reads one decimal digit and raises on anything else.\<close>

definition stub_int :: "pystr \<Rightarrow> exc + int" where
  "stub_int s =
     (case s of
        [c] \<Rightarrow> if 0x30 \<le> c \<and> c \<le> 0x39 then Inr (int c - 0x30)
               else Inl (ValueError (lit ''invalid literal for int() with base 10''))
      | _ \<Rightarrow> Inl (ValueError (lit ''invalid literal for int() with base 10'')))"

definition stub_fields :: "pystr \<Rightarrow> pystr \<Rightarrow> pystr \<Rightarrow> snapshot_fields" where
  "stub_fields name question tags =
     \<lparr>s_name = name, s_model_name = lit ''Gemini 2.0 Flash'', s_user_prompt = question,
      s_system_prompt = lit ''You are helpful.'', s_cot_prompt = None,
      s_initial_response = lit ''4'', s_thinking = [], s_reflection = [],
      s_final_response = [], s_tags = tags\<rparr>"

text \<open>
  A lookup for the examples: a row with three keys under the number 1, an exception
  under the number 9, and nothing elsewhere.
\<close>

definition stub_lookup :: "int \<Rightarrow> exc + pydict option" where
  "stub_lookup i =
     (if i = 1 then
        Inr (Some [(lit ''snapshot_name'', PStr (lit ''first'')),
                   (lit ''user_prompt'', PStr (lit ''What is 2+2?'')),
                   (lit ''cot_prompt'', PNone)])
      else if i = 9 then Inl (OtherError (lit ''database is locked''))
      else Inr None)"

text \<open>Three saves into the empty store, for the examples.\<close>

definition s1 :: store where
  "s1 = snd (save_snapshot empty_store 100
               (stub_fields (lit ''first'') (lit ''What is 2+2?'') (lit ''math, easy'')))"

definition s2 :: store where
  "s2 = snd (save_snapshot s1 300
               (stub_fields (lit ''second'') (lit ''Capital of France?'') (lit ''geo'')))"

definition s3 :: store where
  "s3 = snd (save_snapshot s2 200
               (stub_fields (lit ''third'') (lit ''Who wrote Hamlet?'') (lit ''books'')))"

section \<open>Results about process\_question\<close>

lemma error_outputs_fields:
  "user_prompt_output (error_outputs q e) = q"
  "initial_response_output (error_outputs q e) = lit ''An error occurred: '' @ str_exc e"
  "thinking_output (error_outputs q e) = []"
  "reflection_output (error_outputs q e) = []"
  "final_output (error_outputs q e) = []"
  "system_prompt_output (error_outputs q e) = None"
  "cot_prompt_output (error_outputs q e) = None"
  by (simp_all add: error_outputs_def user_prompt_output_def initial_response_output_def
      thinking_output_def reflection_output_def final_output_def system_prompt_output_def
      cot_prompt_output_def)

lemma stub_env_simps:
  "AVAILABLE_MODELS (stub_env response cot) = [lit ''Gemini 2.0 Flash'']"
  "get_model_response (stub_env response cot) m p n = (response, Suc n)"
  "cot_reflection (stub_env response cot) sp cp q d m n = (cot, Suc n)"
  "docx_paragraphs (stub_env response cot) b n =
     (Inl (OtherError (lit ''File is not a zip file'')), Suc n)"
  "pdf_pages (stub_env response cot) b n =
     (if b = lit ''%PDF'' then Inr [lit ''page one'', lit ''page two'']
      else Inl (OtherError (lit ''EOF marker not found'')), Suc n)"
  by (simp_all add: stub_env_def)

lemma read_document_unreadable:
  "pdf_pages env b w = (Inl e1, w1) \<Longrightarrow> docx_paragraphs env b w1 = (Inl e2, w2) \<Longrightarrow>
     read_document env (Some b) w = (Inl (ValueError read_error), w2)"
  by (simp add: read_document_def)

text \<open>
  C10. On every return path of \<open>process_question\<close> (reasoned mode, direct mode and the
  error path) the first element of the returned tuple is the caller's \<open>user_prompt\<close>,
  unchanged.
\<close>

theorem process_question_echoes_user_prompt:
  "fst (fst (process_question env file user_prompt system_prompt cot_prompt selected_model
               use_default_cot w)) = user_prompt"
  by (simp add: process_question_def process_question_try_def error_outputs_def
      split: prod.splits sum.splits)

text \<open>
  C4. When the selected model is not a key of the registry, \<open>process_question\<close> returns
  the failure tuple for "Invalid model selected" and the world is the one it started
  from: no backend and no document reader has been called, whatever they would do.
\<close>

theorem unregistered_model_no_backend:
  assumes "selected_model \<notin> set (AVAILABLE_MODELS env)"
  shows "process_question env file q sp cp selected_model use_default_cot w =
           ((q, lit ''An error occurred: Invalid model selected: '' @ selected_model,
             [], [], [], None, None), w)"
  using assms
  by (simp add: process_question_def process_question_try_def error_outputs_def lit_def)

theorem unregistered_model_no_backend_witness:
  "lit ''GPT-9'' \<notin> set (AVAILABLE_MODELS (stub_env (Inr (lit ''4'')) (Inl (OtherError []))))
   \<and> process_question (stub_env (Inr (lit ''4'')) (Inl (OtherError []))) (Some (lit ''%PDF''))
       (lit ''What is 2+2?'') (lit ''Be brief.'') (lit ''Think.'') (lit ''GPT-9'') True 0 =
     ((lit ''What is 2+2?'', lit ''An error occurred: Invalid model selected: GPT-9'',
       [], [], [], None, None), 0)"
proof -
  have h: "lit ''GPT-9'' \<notin>
             set (AVAILABLE_MODELS (stub_env (Inr (lit ''4'')) (Inl (OtherError []))))"
    by (simp add: stub_env_simps lit_def)
  show ?thesis
    using h unregistered_model_no_backend [OF h, of "Some (lit ''%PDF'')" "lit ''What is 2+2?''"
        "lit ''Be brief.''" "lit ''Think.''" True 0]
    by (simp add: lit_def)
qed

text \<open>
  C1, as the code has it. Every exception of the \<open>try\<close> block is caught and turned into a
  tuple; none reaches the caller. The tuple carries the text "An error occurred: " and
  the exception's message in its second component, the initial response; thinking,
  reflection and the final output are empty, and the two prompts are \<open>None\<close>. The
  sources of an exception are: a model that is not registered; a document that neither
  reader can read; a failing call of \<open>get_model_response\<close> in direct or in reasoned
  mode; and a failing call of \<open>cot_reflection\<close>.
\<close>

theorem errors_become_results:
  "(selected_model \<notin> set (AVAILABLE_MODELS env) \<longrightarrow>
      process_question env file q sp cp selected_model use_default_cot w =
        (error_outputs q (ValueError (lit ''Invalid model selected: '' @ selected_model)), w)) \<and>
   (selected_model \<in> set (AVAILABLE_MODELS env) \<and> file = Some b \<and>
    pdf_pages env b w = (Inl e1, v1) \<and> docx_paragraphs env b v1 = (Inl e2, v2) \<longrightarrow>
      process_question env file q sp cp selected_model use_default_cot w =
        (error_outputs q (ValueError read_error), v2)) \<and>
   (selected_model \<in> set (AVAILABLE_MODELS env) \<and> read_document env file w = (Inr d, w1) \<and>
    get_model_response env selected_model (direct_response_prompt sp d q) w1 = (Inl e, w2) \<longrightarrow>
      process_question env file q sp cp selected_model False w = (error_outputs q e, w2)) \<and>
   (selected_model \<in> set (AVAILABLE_MODELS env) \<and> read_document env file w = (Inr d, w1) \<and>
    get_model_response env selected_model (initial_response_prompt sp d q) w1 = (Inl e, w2) \<longrightarrow>
      process_question env file q sp cp selected_model True w = (error_outputs q e, w2)) \<and>
   (selected_model \<in> set (AVAILABLE_MODELS env) \<and> read_document env file w = (Inr d, w1) \<and>
    get_model_response env selected_model (initial_response_prompt sp d q) w1 = (Inr a, w2) \<and>
    cot_reflection env sp cp q d selected_model w2 = (Inl e, w3) \<longrightarrow>
      process_question env file q sp cp selected_model True w = (error_outputs q e, w3)) \<and>
   error_outputs q e = (q, lit ''An error occurred: '' @ str_exc e, [], [], [], None, None) \<and>
   initial_response_output (error_outputs q e) = lit ''An error occurred: '' @ str_exc e \<and>
   thinking_output (error_outputs q e) = [] \<and>
   reflection_output (error_outputs q e) = [] \<and>
   final_output (error_outputs q e) = []"
proof (intro conjI impI)
  assume "selected_model \<notin> set (AVAILABLE_MODELS env)"
  then show "process_question env file q sp cp selected_model use_default_cot w =
        (error_outputs q (ValueError (lit ''Invalid model selected: '' @ selected_model)), w)"
    by (simp add: process_question_def process_question_try_def)
next
  assume h: "selected_model \<in> set (AVAILABLE_MODELS env) \<and> file = Some b \<and>
    pdf_pages env b w = (Inl e1, v1) \<and> docx_paragraphs env b v1 = (Inl e2, v2)"
  then have "read_document env file w = (Inl (ValueError read_error), v2)"
    by (simp add: read_document_unreadable)
  with h show "process_question env file q sp cp selected_model use_default_cot w =
           (error_outputs q (ValueError read_error), v2)"
    by (simp add: process_question_def process_question_try_def)
next
  assume "selected_model \<in> set (AVAILABLE_MODELS env) \<and> read_document env file w = (Inr d, w1) \<and>
    get_model_response env selected_model (direct_response_prompt sp d q) w1 = (Inl e, w2)"
  then show "process_question env file q sp cp selected_model False w = (error_outputs q e, w2)"
    by (simp add: process_question_def process_question_try_def)
next
  assume "selected_model \<in> set (AVAILABLE_MODELS env) \<and> read_document env file w = (Inr d, w1) \<and>
    get_model_response env selected_model (initial_response_prompt sp d q) w1 = (Inl e, w2)"
  then show "process_question env file q sp cp selected_model True w = (error_outputs q e, w2)"
    by (simp add: process_question_def process_question_try_def)
next
  assume "selected_model \<in> set (AVAILABLE_MODELS env) \<and> read_document env file w = (Inr d, w1) \<and>
    get_model_response env selected_model (initial_response_prompt sp d q) w1 = (Inr a, w2) \<and>
    cot_reflection env sp cp q d selected_model w2 = (Inl e, w3)"
  then show "process_question env file q sp cp selected_model True w = (error_outputs q e, w3)"
    by (simp add: process_question_def process_question_try_def)
qed (simp add: error_outputs_def, simp_all add: error_outputs_fields)

theorem errors_become_results_witness:
  "process_question (stub_env (Inr (lit ''4'')) (Inl (OtherError (lit ''quota exceeded''))))
       None (lit ''What is 2+2?'') (lit ''Be brief.'') (lit ''Think.'') (lit ''GPT-9'') False 0 =
     ((lit ''What is 2+2?'', lit ''An error occurred: Invalid model selected: GPT-9'',
       [], [], [], None, None), 0) \<and>
   process_question (stub_env (Inr (lit ''4'')) (Inl (OtherError (lit ''quota exceeded''))))
       (Some (lit ''junk'')) (lit ''What is 2+2?'') (lit ''Be brief.'') (lit ''Think.'')
       (lit ''Gemini 2.0 Flash'') False 0 =
     ((lit ''What is 2+2?'', lit ''An error occurred: '' @ read_error, [], [], [], None, None),
      2) \<and>
   process_question
       (stub_env (Inl (OtherError (lit ''timeout''))) (Inl (OtherError (lit ''quota exceeded''))))
       None (lit ''What is 2+2?'') (lit ''Be brief.'') (lit ''Think.'')
       (lit ''Gemini 2.0 Flash'') False 0 =
     ((lit ''What is 2+2?'', lit ''An error occurred: timeout'', [], [], [], None, None), 1) \<and>
   process_question
       (stub_env (Inl (OtherError (lit ''timeout''))) (Inl (OtherError (lit ''quota exceeded''))))
       None (lit ''What is 2+2?'') (lit ''Be brief.'') (lit ''Think.'')
       (lit ''Gemini 2.0 Flash'') True 0 =
     ((lit ''What is 2+2?'', lit ''An error occurred: timeout'', [], [], [], None, None), 1) \<and>
   process_question (stub_env (Inr (lit ''4'')) (Inl (OtherError (lit ''quota exceeded''))))
       None (lit ''What is 2+2?'') (lit ''Be brief.'') (lit ''Think.'')
       (lit ''Gemini 2.0 Flash'') True 0 =
     ((lit ''What is 2+2?'', lit ''An error occurred: quota exceeded'', [], [], [], None, None),
      2)"
proof -
  let ?E = "stub_env (Inr (lit ''4'')) (Inl (OtherError (lit ''quota exceeded'')))"
  let ?D = "stub_env (Inl (OtherError (lit ''timeout'')))
              (Inl (OtherError (lit ''quota exceeded'')))"
  let ?q = "lit ''What is 2+2?''" and ?sp = "lit ''Be brief.''" and ?cp = "lit ''Think.''"
  let ?m = "lit ''Gemini 2.0 Flash''"
  note T = errors_become_results
  have 1: "process_question ?E None ?q ?sp ?cp (lit ''GPT-9'') False 0 =
     ((?q, lit ''An error occurred: Invalid model selected: GPT-9'', [], [], [], None, None), 0)"
    using T [of "lit ''GPT-9''" ?E None ?q ?sp ?cp False 0]
    by (simp add: stub_env_simps error_outputs_def lit_def)
  have 2: "process_question ?E (Some (lit ''junk'')) ?q ?sp ?cp ?m False 0 =
     ((?q, lit ''An error occurred: '' @ read_error, [], [], [], None, None), 2)"
    using T [of ?m ?E "Some (lit ''junk'')" ?q ?sp ?cp False 0 "lit ''junk''"
        "OtherError (lit ''EOF marker not found'')" 1
        "OtherError (lit ''File is not a zip file'')" 2]
    by (simp add: stub_env_simps error_outputs_def lit_def)
  have 3: "process_question ?D None ?q ?sp ?cp ?m False 0 =
     ((?q, lit ''An error occurred: timeout'', [], [], [], None, None), 1)"
    using T [of ?m ?D None ?q ?sp ?cp False 0 _ _ _ _ _ None 0 "OtherError (lit ''timeout'')" 1]
    by (simp add: stub_env_simps error_outputs_def read_document_def lit_def)
  have 4: "process_question ?D None ?q ?sp ?cp ?m True 0 =
     ((?q, lit ''An error occurred: timeout'', [], [], [], None, None), 1)"
    using T [of ?m ?D None ?q ?sp ?cp True 0 _ _ _ _ _ None 0 "OtherError (lit ''timeout'')" 1]
    by (simp add: stub_env_simps error_outputs_def read_document_def lit_def)
  have 5: "process_question ?E None ?q ?sp ?cp ?m True 0 =
     ((?q, lit ''An error occurred: quota exceeded'', [], [], [], None, None), 2)"
    using T [of ?m ?E None ?q ?sp ?cp True 0 _ _ _ _ _ None 0
        "OtherError (lit ''quota exceeded'')" 1 "lit ''4''" 2]
    by (simp add: stub_env_simps error_outputs_def read_document_def lit_def)
  from 1 2 3 4 5 show ?thesis by blast
qed

text \<open>
  C1, as it is stated, fails: for a model that is not registered the final output is
  empty and the error description stands in the initial response.
\<close>

theorem error_in_final_answer_counterexample:
  "final_output (fst (process_question
       (stub_env (Inr (lit ''4'')) (Inl (OtherError (lit ''quota exceeded''))))
       None (lit ''What is 2+2?'') (lit ''Be brief.'') (lit ''Think.'') (lit ''GPT-9'') False 0))
     = [] \<and>
   initial_response_output (fst (process_question
       (stub_env (Inr (lit ''4'')) (Inl (OtherError (lit ''quota exceeded''))))
       None (lit ''What is 2+2?'') (lit ''Be brief.'') (lit ''Think.'') (lit ''GPT-9'') False 0))
     = lit ''An error occurred: Invalid model selected: GPT-9'' \<and>
   lit ''An error occurred: Invalid model selected: GPT-9'' \<noteq> []"
  by (simp add: process_question_def process_question_try_def stub_env_simps error_outputs_def
      final_output_def initial_response_output_def lit_def)

text \<open>
  C2, as the code has it. In direct mode (\<open>use_default_cot\<close> false), with a registered
  model, a document that is absent or readable, and a backend call that succeeds,
  \<open>process_question\<close> makes that one call of \<open>get_model_response\<close> (the world it returns
  is the world after that call) and returns the response as the initial response;
  thinking, reflection and the final output are empty, the system prompt is echoed,
  and the chain-of-thought prompt is \<open>None\<close>.
\<close>

theorem direct_mode_result:
  assumes "selected_model \<in> set (AVAILABLE_MODELS env)"
    and "read_document env file w = (Inr d, w1)"
    and "get_model_response env selected_model (direct_response_prompt sp d q) w1 =
           (Inr response, w2)"
  shows "process_question env file q sp cp selected_model False w =
           ((q, response, [], [], [], Some sp, None), w2) \<and>
         initial_response_output (fst (process_question env file q sp cp selected_model False w))
           = response \<and>
         thinking_output (fst (process_question env file q sp cp selected_model False w)) = [] \<and>
         reflection_output (fst (process_question env file q sp cp selected_model False w)) = [] \<and>
         final_output (fst (process_question env file q sp cp selected_model False w)) = [] \<and>
         cot_prompt_output (fst (process_question env file q sp cp selected_model False w)) = None"
proof -
  have "process_question env file q sp cp selected_model False w =
           ((q, response, [], [], [], Some sp, None), w2)"
    using assms by (simp add: process_question_def process_question_try_def)
  then show ?thesis
    by (simp add: initial_response_output_def thinking_output_def reflection_output_def
        final_output_def cot_prompt_output_def)
qed

theorem direct_mode_result_witness:
  "lit ''Gemini 2.0 Flash'' \<in>
     set (AVAILABLE_MODELS (stub_env (Inr (lit ''4'')) (Inl (OtherError []))))
   \<and> read_document (stub_env (Inr (lit ''4'')) (Inl (OtherError []))) None 0 = (Inr None, 0)
   \<and> process_question (stub_env (Inr (lit ''4'')) (Inl (OtherError []))) None
       (lit ''What is 2+2?'') (lit ''Be brief.'') (lit ''Think.'') (lit ''Gemini 2.0 Flash'')
       False 0 =
     ((lit ''What is 2+2?'', lit ''4'', [], [], [], Some (lit ''Be brief.''), None), 1)"
proof -
  let ?E = "stub_env (Inr (lit ''4'')) (Inl (OtherError []))"
  have a: "lit ''Gemini 2.0 Flash'' \<in> set (AVAILABLE_MODELS ?E)"
    by (simp add: stub_env_simps)
  have b: "read_document ?E None 0 = (Inr None, 0)"
    by (simp add: read_document_def)
  have c: "get_model_response ?E (lit ''Gemini 2.0 Flash'')
             (direct_response_prompt (lit ''Be brief.'') None (lit ''What is 2+2?'')) 0 =
           (Inr (lit ''4''), 1)"
    by (simp add: stub_env_simps)
  from direct_mode_result [OF a b c, of "lit ''Think.''"] a b show ?thesis by simp
qed

text \<open>
  C2, as it is stated, fails: the backend answers "4" and the final output of the direct
  mode is not that answer (it is empty).
\<close>

theorem direct_mode_final_answer_counterexample:
  "fst (get_model_response (stub_env (Inr (lit ''4'')) (Inl (OtherError [])))
          (lit ''Gemini 2.0 Flash'')
          (direct_response_prompt (lit ''Be brief.'') None (lit ''What is 2+2?'')) 0)
     = Inr (lit ''4'') \<and>
   final_output (fst (process_question (stub_env (Inr (lit ''4'')) (Inl (OtherError []))) None
       (lit ''What is 2+2?'') (lit ''Be brief.'') (lit ''Think.'') (lit ''Gemini 2.0 Flash'')
       False 0)) \<noteq> lit ''4''"
  by (simp add: process_question_def process_question_try_def stub_env_simps read_document_def
      final_output_def lit_def)

section \<open>Results about the thinking-tag extraction\<close>

lemma starts_with_iff: "starts_with p s \<longleftrightarrow> (\<exists>r. s = p @ r)"
  by (induction p s rule: starts_with.induct) auto

lemma lazy_dot_until_Some:
  "lazy_dot_until cl s = Some g \<Longrightarrow>
     (\<exists>q. s = g @ cl @ q) \<and> (\<forall>g' q'. s = g' @ cl @ q' \<longrightarrow> length g \<le> length g')"
proof (induction s arbitrary: g)
  case Nil
  then show ?case by (auto simp: starts_with_iff split: if_splits)
next
  case (Cons c cs)
  show ?case
  proof (cases "starts_with cl (c # cs)")
    case True
    with Cons.prems have "g = []" by simp
    with True show ?thesis by (auto simp: starts_with_iff)
  next
    case False
    with Cons.prems obtain g0 where g0: "lazy_dot_until cl cs = Some g0" "g = c # g0"
      by auto
    from Cons.IH[OF g0(1)] obtain q where q: "cs = g0 @ cl @ q"
      and least: "\<forall>g' q'. cs = g' @ cl @ q' \<longrightarrow> length g0 \<le> length g'"
      by blast
    have "length g \<le> length g'" if "c # cs = g' @ cl @ q'" for g' q'
    proof (cases g')
      case Nil
      with that have "starts_with cl (c # cs)" by (simp add: starts_with_iff)
      with False show ?thesis by simp
    next
      case (Cons a g'')
      with that have "cs = g'' @ cl @ q'" by simp
      with least have "length g0 \<le> length g''" by blast
      with Cons g0(2) show ?thesis by simp
    qed
    with q g0(2) show ?thesis by auto
  qed
qed

lemma lazy_dot_until_None:
  "lazy_dot_until cl s = None \<Longrightarrow> s \<noteq> g @ cl @ q"
proof (induction s arbitrary: g)
  case Nil
  then show ?case by (auto simp: starts_with_iff split: if_splits)
next
  case (Cons c cs)
  from Cons.prems have ns: "\<not> starts_with cl (c # cs)" and rec: "lazy_dot_until cl cs = None"
    by (auto split: if_splits)
  show ?case
  proof (cases g)
    case Nil
    with ns show ?thesis by (auto simp: starts_with_iff)
  next
    case (Cons a g')
    with Cons.IH[OF rec, of g'] show ?thesis by auto
  qed
qed

lemma match_at_Some:
  "match_at opn cl s = Some g \<Longrightarrow>
     is_span opn cl s [] g \<and> (\<forall>inner'. is_span opn cl s [] inner' \<longrightarrow> length g \<le> length inner')"
  unfolding match_at_def is_span_def
  by (auto simp: starts_with_iff split: if_splits dest!: lazy_dot_until_Some)

lemma match_at_None:
  "match_at opn cl s = None \<Longrightarrow> \<not> is_span opn cl s [] inner"
  unfolding match_at_def is_span_def
  by (auto simp: starts_with_iff split: if_splits dest: lazy_dot_until_None)

lemma is_span_Cons_Cons:
  "is_span opn cl (c # cs) (c' # pre) inner \<longleftrightarrow> c' = c \<and> is_span opn cl cs pre inner"
  unfolding is_span_def by auto

lemma re_search_Some:
  "re_search opn cl s = Some g \<Longrightarrow> \<exists>pre. first_span opn cl s pre g"
proof (induction s)
  case Nil
  then have "first_span opn cl [] [] g"
    unfolding first_span_def using match_at_Some[of opn cl "[]" g]
    by (auto simp: is_span_def)
  then show ?case ..
next
  case (Cons c cs)
  show ?case
  proof (cases "match_at opn cl (c # cs)")
    case (Some g')
    with Cons.prems have "g' = g" by simp
    with Some match_at_Some[of opn cl "c # cs" g]
    have "first_span opn cl (c # cs) [] g"
      unfolding first_span_def by auto
    then show ?thesis ..
  next
    case None
    with Cons.prems have "re_search opn cl cs = Some g" by simp
    from Cons.IH[OF this] obtain pre where fs: "first_span opn cl cs pre g" ..
    have "first_span opn cl (c # cs) (c # pre) g"
      unfolding first_span_def
    proof (intro conjI allI impI)
      show "is_span opn cl (c # cs) (c # pre) g"
        using fs by (simp add: first_span_def is_span_Cons_Cons)
    next
      fix pre' inner'
      assume sp: "is_span opn cl (c # cs) pre' inner'"
      with match_at_None[OF None] obtain p where p: "pre' = c # p" "is_span opn cl cs p inner'"
        by (cases pre') (auto simp: is_span_Cons_Cons)
      with fs show "length (c # pre) \<le> length pre'"
        by (auto simp: first_span_def)
      assume "length pre' = length (c # pre)"
      with p fs show "length g \<le> length inner'"
        by (auto simp: first_span_def)
    qed
    then show ?thesis ..
  qed
qed

lemma re_search_None:
  "re_search opn cl s = None \<Longrightarrow> \<not> is_span opn cl s pre inner"
proof (induction s arbitrary: pre)
  case Nil
  then show ?case using match_at_None[of opn cl "[]" inner]
    by (auto simp: is_span_def)
next
  case (Cons c cs)
  from Cons.prems have m: "match_at opn cl (c # cs) = None" and r: "re_search opn cl cs = None"
    by (auto split: option.splits)
  show ?case
    using match_at_None[OF m] Cons.IH[OF r] by (cases pre) (auto simp: is_span_Cons_Cons)
qed

lemma first_span_unique:
  assumes "first_span opn cl text pre inner" and "first_span opn cl text pre' inner'"
  shows "pre' = pre \<and> inner' = inner"
proof -
  from assms have lp: "length pre = length pre'"
    unfolding first_span_def by (meson le_antisym)
  with assms have li: "length inner = length inner'"
    unfolding first_span_def by (metis le_antisym)
  from assms obtain post post' where
    t: "text = pre @ opn @ inner @ cl @ post" and t': "text = pre' @ opn @ inner' @ cl @ post'"
    unfolding first_span_def is_span_def by blast
  from t t' lp have p: "pre = pre'" and "opn @ inner @ cl @ post = opn @ inner' @ cl @ post'"
    by auto
  then have "inner @ cl @ post = inner' @ cl @ post'" by simp
  with li have "inner = inner'" by auto
  with p show ?thesis by simp
qed

text \<open>
  C3. For every text: when the text holds a well-formed span
  \<open><thinking>...</thinking>\<close>, it has a first span (leftmost start, then earliest end:
  the non-greedy match, over any characters, newlines included), the match is found and
  the extracted thinking is the inner text of that first span with its surrounding white
  space stripped; when the text holds no such span, nothing is found and the text is
  returned unchanged. The extraction is a total function: it has no failure.
\<close>

theorem thinking_extraction:
  "((\<exists>pre inner. is_span thinking_open thinking_close text pre inner) \<longrightarrow>
      (\<exists>pre inner. first_span thinking_open thinking_close text pre inner)) \<and>
   (first_span thinking_open thinking_close text pre inner \<longrightarrow>
      thinking_match text = Some inner \<and> actual_thinking text = strip inner) \<and>
   ((\<forall>pre inner. \<not> is_span thinking_open thinking_close text pre inner) \<longrightarrow>
      thinking_match text = None \<and> actual_thinking text = text)"
proof (cases "thinking_match text")
  case None
  then have no: "\<not> is_span thinking_open thinking_close text p i" for p i
    unfolding thinking_match_def by (rule re_search_None)
  then have "\<not> first_span thinking_open thinking_close text pre inner"
    by (simp add: first_span_def)
  with None no show ?thesis by (simp add: actual_thinking_def)
next
  case (Some g)
  then obtain p where fs: "first_span thinking_open thinking_close text p g"
    unfolding thinking_match_def using re_search_Some by blast
  then have ex: "is_span thinking_open thinking_close text p g"
    by (simp add: first_span_def)
  have "inner = g" if "first_span thinking_open thinking_close text pre inner"
    using first_span_unique [OF fs that] by simp
  with Some fs ex show ?thesis by (auto simp: actual_thinking_def)
qed

theorem thinking_extraction_witness:
  "thinking_match (lit ''<thinking>because arithmetic</thinking> The answer is 4.'') =
     Some (lit ''because arithmetic'') \<and>
   actual_thinking
       (lit ''Intro <thinking>'' @ [10] @ lit ''  one </thinking> two </thinking>'') =
     lit ''one'' \<and>
   thinking_match (lit ''<thinking>never closed'') = None \<and>
   actual_thinking (lit ''<thinking>never closed'') = lit ''<thinking>never closed''"
proof -
  let ?a = "lit ''<thinking>because arithmetic</thinking> The answer is 4.''"
  let ?b = "lit ''Intro <thinking>'' @ [10] @ lit ''  one </thinking> two </thinking>''"
  let ?g = "[10] @ lit ''  one ''"
  let ?c = "lit ''<thinking>never closed''"
  have "re_search thinking_open thinking_close ?a = Some (lit ''because arithmetic'')"
    by (simp add: thinking_open_def thinking_close_def match_at_def lit_def)
  then obtain p where a: "first_span thinking_open thinking_close ?a p (lit ''because arithmetic'')"
    using re_search_Some by blast
  have "re_search thinking_open thinking_close ?b = Some ?g"
    by (simp add: thinking_open_def thinking_close_def match_at_def lit_def)
  then obtain p' where b: "first_span thinking_open thinking_close ?b p' ?g"
    using re_search_Some by blast
  have "re_search thinking_open thinking_close ?c = None"
    by (simp add: thinking_open_def thinking_close_def match_at_def lit_def)
  then have c: "\<forall>pre inner. \<not> is_span thinking_open thinking_close ?c pre inner"
    using re_search_None by blast
  have s: "strip ?g = lit ''one''"
    by (simp add: strip_def isspace_def lit_def)
  from thinking_extraction [of ?a p "lit ''because arithmetic''"] a
    thinking_extraction [of ?b p' ?g] b s
    thinking_extraction [of ?c] c
  show ?thesis by simp
qed

section \<open>Results about the snapshot store\<close>

lemma store_inv_empty: "store_inv empty_store"
  by (simp add: store_inv_def empty_store_def)

lemma save_snapshot_inv:
  assumes "store_inv st" and "save_snapshot st now saved = (i, st')"
  shows "store_inv st' \<and> i = next_id st \<and> next_id st' = next_id st + 1"
proof -
  from assms(2) have i: "i = next_id st"
    and st': "st' = \<lparr>next_id = next_id st + 1,
        rows = rows st @ [\<lparr>s_id = next_id st, s_created_at = now, s_content = saved\<rparr>]\<rparr>"
    by (auto simp: save_snapshot_def)
  from assms(1) have "\<forall>r \<in> set (rows st). 0 < s_id r \<and> s_id r < next_id st"
    by (simp add: store_inv_def list_all_iff)
  with assms(1) have "store_inv st'"
    unfolding st' store_inv_def list_all_iff by fastforce
  with i st' show ?thesis by simp
qed

lemma delete_snapshot_inv:
  assumes "store_inv st"
  shows "store_inv (snd (delete_snapshot st i)) \<and> next_id (snd (delete_snapshot st i)) = next_id st"
  using assms by (auto simp: store_inv_def delete_snapshot_def list_all_iff distinct_map_filter)

lemma run_ops_inv:
  assumes "store_inv st" and "run_ops st ops = (ids, st')"
  shows "store_inv st' \<and> next_id st \<le> next_id st' \<and> sorted_wrt (<) ids \<and>
         (\<forall>i \<in> set ids. next_id st \<le> i \<and> i < next_id st') \<and>
         (\<forall>r \<in> set (rows st'). r \<in> set (rows st) \<or> s_id r \<in> set ids)"
  using assms
proof (induction st ops arbitrary: ids st' rule: run_ops.induct)
  case (1 st)
  then show ?case by simp
next
  case (2 st now saved ops)
  obtain i st1 where s: "save_snapshot st now saved = (i, st1)" by (cases "save_snapshot st now saved")
  obtain ids1 st2 where r: "run_ops st1 ops = (ids1, st2)" by (cases "run_ops st1 ops")
  from "2.prems"(2) s r have e: "ids = i # ids1" "st' = st2" by simp_all
  from save_snapshot_inv [OF "2.prems"(1) s]
  have inv1: "store_inv st1" and i: "i = next_id st" and n1: "next_id st1 = next_id st + 1"
    by simp_all
  from "2.IH" [OF s [symmetric] inv1 r]
  have ih: "store_inv st2" "next_id st1 \<le> next_id st2" "sorted_wrt (<) ids1"
    "\<forall>j \<in> set ids1. next_id st1 \<le> j \<and> j < next_id st2"
    "\<forall>r \<in> set (rows st2). r \<in> set (rows st1) \<or> s_id r \<in> set ids1"
    by simp_all
  from s have rows1: "rows st1 = rows st @ [\<lparr>s_id = i, s_created_at = now, s_content = saved\<rparr>]"
    by (auto simp: save_snapshot_def)
  have "\<forall>r \<in> set (rows st'). r \<in> set (rows st) \<or> s_id r \<in> set ids"
    using ih(5) rows1 e by auto
  moreover have "sorted_wrt (<) ids"
    using ih(3,4) e i n1 by auto
  moreover have "\<forall>j \<in> set ids. next_id st \<le> j \<and> j < next_id st'"
    using ih(2,4) e i n1 by auto
  ultimately show ?case using ih(1,2) n1 e by simp
next
  case (3 st i ops)
  from delete_snapshot_inv [OF "3.prems"(1), of i]
  have inv1: "store_inv (snd (delete_snapshot st i))"
    and n1: "next_id (snd (delete_snapshot st i)) = next_id st" by simp_all
  from "3.prems"(2) have r: "run_ops (snd (delete_snapshot st i)) ops = (ids, st')" by simp
  from "3.IH" [OF inv1 r] n1
  have ih: "store_inv st'" "next_id st \<le> next_id st'" "sorted_wrt (<) ids"
    "\<forall>j \<in> set ids. next_id st \<le> j \<and> j < next_id st'"
    "\<forall>r \<in> set (rows st'). r \<in> set (rows (snd (delete_snapshot st i))) \<or> s_id r \<in> set ids"
    by simp_all
  have "set (rows (snd (delete_snapshot st i))) \<subseteq> set (rows st)"
    by (auto simp: delete_snapshot_def)
  with ih show ?case by blast
qed

lemma s1_eq: "s1 = \<lparr>next_id = 2, rows = [\<lparr>s_id = 1, s_created_at = 100,
   s_content = stub_fields (lit ''first'') (lit ''What is 2+2?'') (lit ''math, easy'')\<rparr>]\<rparr>"
  by (simp add: s1_def save_snapshot_def empty_store_def)

lemma s3_eq: "s3 = \<lparr>next_id = 4, rows = [
   \<lparr>s_id = 1, s_created_at = 100,
     s_content = stub_fields (lit ''first'') (lit ''What is 2+2?'') (lit ''math, easy'')\<rparr>,
   \<lparr>s_id = 2, s_created_at = 300,
     s_content = stub_fields (lit ''second'') (lit ''Capital of France?'') (lit ''geo'')\<rparr>,
   \<lparr>s_id = 3, s_created_at = 200,
     s_content = stub_fields (lit ''third'') (lit ''Who wrote Hamlet?'') (lit ''books'')\<rparr>]\<rparr>"
  by (simp add: s3_def s2_def s1_eq save_snapshot_def)

text \<open>
  C5. In every lifetime of the store (any sequence of saves and deletes from the empty
  store) the identifiers that the saves return are strictly increasing, the stored
  records have pairwise distinct identifiers, and every stored identifier is one that a
  save of this lifetime returned; so an identifier is never given out twice, also after
  its record has been deleted.
\<close>

theorem snapshot_ids_increase:
  "sorted_wrt (<) (fst (run_ops empty_store ops)) \<and>
   distinct (map s_id (rows (snd (run_ops empty_store ops)))) \<and>
   (\<forall>r \<in> set (rows (snd (run_ops empty_store ops))). s_id r \<in> set (fst (run_ops empty_store ops)))"
proof -
  obtain ids st' where r: "run_ops empty_store ops = (ids, st')" by (cases "run_ops empty_store ops")
  from run_ops_inv [OF store_inv_empty r] show ?thesis
    unfolding r by (simp add: store_inv_def empty_store_def)
qed

theorem snapshot_ids_increase_witness:
  "fst (run_ops empty_store
          [Save 100 (stub_fields (lit ''a'') (lit ''q'') []), Save 90 (stub_fields (lit ''b'') (lit ''q'') []),
           Delete 2, Save 95 (stub_fields (lit ''c'') (lit ''q'') [])]) = [1, 2, 3] \<and>
   map s_id (rows (snd (run_ops empty_store
          [Save 100 (stub_fields (lit ''a'') (lit ''q'') []), Save 90 (stub_fields (lit ''b'') (lit ''q'') []),
           Delete 2, Save 95 (stub_fields (lit ''c'') (lit ''q'') [])]))) = [1, 3]"
  using snapshot_ids_increase [of "[Save 100 (stub_fields (lit ''a'') (lit ''q'') []),
           Save 90 (stub_fields (lit ''b'') (lit ''q'') []),
           Delete 2, Save 95 (stub_fields (lit ''c'') (lit ''q'') [])]"]
  by (simp add: empty_store_def save_snapshot_def delete_snapshot_def)

lemma find_filter_None: "find (\<lambda>r. s_id r = i) (filter (\<lambda>r. s_id r \<noteq> i) rs) = None"
  by (induction rs) auto

lemma find_None_iff_ids: "find (\<lambda>r. s_id r = i) rs = None \<longleftrightarrow> i \<notin> set (map s_id rs)"
  by (induction rs) auto

lemma filter_absent: "i \<notin> set (map s_id rs) \<Longrightarrow> filter (\<lambda>r. s_id r \<noteq> i) rs = rs"
  by (induction rs) auto

text \<open>
  C6. After \<open>delete(id)\<close> the lookup of \<open>id\<close> finds nothing. For a stored id the first
  delete returns true and a second one false; for an id that is not stored delete
  returns false and leaves the store as it is. Delete is a total function: it has no
  error.
\<close>

theorem delete_then_lookup:
  "get_snapshot_by_id (snd (delete_snapshot st i)) i = None \<and>
   (get_snapshot_by_id st i \<noteq> None \<longrightarrow>
      fst (delete_snapshot st i) \<and> \<not> fst (delete_snapshot (snd (delete_snapshot st i)) i)) \<and>
   (get_snapshot_by_id st i = None \<longrightarrow>
      \<not> fst (delete_snapshot st i) \<and> snd (delete_snapshot st i) = st)"
proof -
  have a: "get_snapshot_by_id (snd (delete_snapshot st i)) i = None"
    by (simp add: get_snapshot_by_id_def delete_snapshot_def find_filter_None)
  have b: "\<not> fst (delete_snapshot (snd (delete_snapshot st i)) i)"
    by (auto simp: delete_snapshot_def)
  have c: "fst (delete_snapshot st i) \<longleftrightarrow> get_snapshot_by_id st i \<noteq> None"
    by (simp add: get_snapshot_by_id_def delete_snapshot_def find_None_iff_ids)
  have d: "snd (delete_snapshot st i) = st" if "get_snapshot_by_id st i = None"
    using that by (simp add: get_snapshot_by_id_def delete_snapshot_def find_None_iff_ids filter_absent)
  from a b c d show ?thesis by blast
qed

theorem delete_then_lookup_witness:
  "get_snapshot_by_id s3 2 \<noteq> None \<and> fst (delete_snapshot s3 2) \<and>
   \<not> fst (delete_snapshot (snd (delete_snapshot s3 2)) 2) \<and>
   get_snapshot_by_id (snd (delete_snapshot s3 2)) 2 = None \<and>
   get_snapshot_by_id s3 7 = None \<and> \<not> fst (delete_snapshot s3 7) \<and>
   snd (delete_snapshot s3 7) = s3"
proof -
  have a: "get_snapshot_by_id s3 2 \<noteq> None"
    by (simp add: s3_eq get_snapshot_by_id_def)
  have b: "get_snapshot_by_id s3 7 = None"
    by (simp add: s3_eq get_snapshot_by_id_def)
  from a b delete_then_lookup [of s3 2] delete_then_lookup [of s3 7] show ?thesis
    by blast
qed

lemma find_append_new:
  "\<forall>r \<in> set rs. s_id r \<noteq> i \<Longrightarrow> s_id x = i \<Longrightarrow> find (\<lambda>r. s_id r = i) (rs @ [x]) = Some x"
  by (induction rs) auto

lemma row_dict_nonempty: "row_dict r \<noteq> []"
  by (simp add: row_dict_def)

text \<open>
  C7. At any point of a store's lifetime, after \<open>save\<close> of a record the export of the
  identifier just assigned returns the record with exactly the fields passed to \<open>save\<close>,
  next to that identifier and the creation time; and the handler \<open>export_snapshot\<close>
  returns the serialisation of exactly that row.
\<close>

theorem save_then_export:
  assumes "st = snd (run_ops empty_store ops)" and "save_snapshot st now saved = (i, st')"
  shows "export_record st' i = Some \<lparr>s_id = i, s_created_at = now, s_content = saved\<rparr> \<and>
         export_snapshot int_of_str (db_lookup st') json_dumps (PInt i) =
           (case json_dumps (row_dict \<lparr>s_id = i, s_created_at = now, s_content = saved\<rparr>) of
              Inl e \<Rightarrow> lit ''Error exporting snapshot: '' @ str_exc e
            | Inr json_content \<Rightarrow> json_content)"
proof -
  let ?r = "\<lparr>s_id = i, s_created_at = now, s_content = saved\<rparr>"
  obtain ids where "run_ops empty_store ops = (ids, st)"
    using assms(1) by (cases "run_ops empty_store ops") simp
  from run_ops_inv [OF store_inv_empty this] have inv: "store_inv st" by simp
  from assms(2) have i: "i = next_id st" and rows': "rows st' = rows st @ [?r]"
    by (auto simp: save_snapshot_def)
  from inv i have pos: "i \<noteq> 0" and "\<forall>r \<in> set (rows st). s_id r \<noteq> i"
    by (auto simp: store_inv_def list_all_iff)
  then have g: "get_snapshot_by_id st' i = Some ?r"
    unfolding get_snapshot_by_id_def rows' by (simp add: find_append_new)
  then show ?thesis using pos
    by (simp add: export_record_def export_snapshot_def db_lookup_def row_dict_nonempty)
qed

theorem save_then_export_witness:
  "save_snapshot
     (snd (run_ops empty_store [Save 50 (stub_fields (lit ''zero'') (lit ''q'') []), Delete 1]))
     100 (stub_fields (lit ''first'') (lit ''What is 2+2?'') (lit ''math, easy'')) =
     (2, \<lparr>next_id = 3, rows = [\<lparr>s_id = 2, s_created_at = 100,
        s_content = stub_fields (lit ''first'') (lit ''What is 2+2?'') (lit ''math, easy'')\<rparr>]\<rparr>) \<and>
   export_record \<lparr>next_id = 3, rows = [\<lparr>s_id = 2, s_created_at = 100,
        s_content = stub_fields (lit ''first'') (lit ''What is 2+2?'') (lit ''math, easy'')\<rparr>]\<rparr> 2 =
     Some \<lparr>s_id = 2, s_created_at = 100,
       s_content = stub_fields (lit ''first'') (lit ''What is 2+2?'') (lit ''math, easy'')\<rparr> \<and>
   export_snapshot stub_int
     (db_lookup \<lparr>next_id = 3, rows = [\<lparr>s_id = 2, s_created_at = 100,
        s_content = stub_fields (lit ''first'') (lit ''What is 2+2?'') (lit ''math, easy'')\<rparr>]\<rparr>)
     (\<lambda>d. Inr (join (lit '','') (map fst d))) (PInt 2) =
     lit ''id,snapshot_name,created_at,model_name,user_prompt,system_prompt,cot_prompt,initial_response,thinking,reflection,final_response,tags''"
proof -
  let ?f = "stub_fields (lit ''first'') (lit ''What is 2+2?'') (lit ''math, easy'')"
  let ?st = "snd (run_ops empty_store [Save 50 (stub_fields (lit ''zero'') (lit ''q'') []), Delete 1])"
  let ?st' = "\<lparr>next_id = 3, rows = [\<lparr>s_id = 2, s_created_at = 100, s_content = ?f\<rparr>]\<rparr>"
  have b: "save_snapshot ?st 100 ?f = (2, ?st')"
    by (simp add: save_snapshot_def delete_snapshot_def empty_store_def)
  from save_then_export [OF refl b, of stub_int "\<lambda>d. Inr (join (lit '','') (map fst d))"] b
  show ?thesis
    by (simp add: row_dict_def lit_def)
qed

lemma is_infix_iff: "is_infix p s \<longleftrightarrow> (\<exists>pre post. s = pre @ p @ post)"
proof (induction s)
  case Nil
  then show ?case by (simp add: starts_with_iff)
next
  case (Cons c cs)
  show ?case
  proof
    assume "is_infix p (c # cs)"
    then consider "starts_with p (c # cs)" | "is_infix p cs" by auto
    then show "\<exists>pre post. c # cs = pre @ p @ post"
    proof cases
      case 1
      then obtain r where "c # cs = [] @ p @ r" by (auto simp: starts_with_iff)
      then show ?thesis by blast
    next
      case 2
      with Cons.IH obtain pre post where "cs = pre @ p @ post" by blast
      then have "c # cs = (c # pre) @ p @ post" by simp
      then show ?thesis by blast
    qed
  next
    assume "\<exists>pre post. c # cs = pre @ p @ post"
    then obtain pre post where e: "c # cs = pre @ p @ post" by blast
    show "is_infix p (c # cs)"
    proof (cases pre)
      case Nil
      with e have "starts_with p (c # cs)" by (simp add: starts_with_iff)
      then show ?thesis by simp
    next
      case (Cons a pre')
      with e have "cs = pre' @ p @ post" by simp
      with Cons.IH show ?thesis by auto
    qed
  qed
qed

lemma contains_ci_iff: "contains_ci needle s \<longleftrightarrow> ci_substring needle s"
  by (simp add: contains_ci_def ci_substring_def is_infix_iff)

lemma each_first_six_summary: "each_first_six (map (summary n) rs) = Inr (map (summary n) rs)"
  by (induction rs) (simp_all add: first_six_def summary_def)

lemma newest_first_sorted:
  "sorted_wrt (\<lambda>a b. s_created_at b \<le> s_created_at a) (newest_first rs)"
proof -
  have "sorted (map (\<lambda>r. - s_created_at r) (newest_first rs))"
    unfolding newest_first_def by (rule sorted_sort_key)
  then show ?thesis
    by (simp add: sorted_wrt_map)
qed

lemma newest_first_mset: "mset (newest_first rs) = mset rs"
  by (simp add: newest_first_def)

text \<open>
  C8. The table that \<open>update_snapshots_table\<close> builds is the list of the summaries of the
  selected snapshots. The selected snapshots are in descending order of creation time;
  with an empty search term they are all the stored snapshots, and with a non-empty term
  they are exactly the stored snapshots whose name, question or tag list contains the
  term as a case-insensitive substring (each once).
\<close>

theorem list_snapshots:
  "update_snapshots_table (get_snapshots n st) search_term =
     Inr (map (summary n) (selected st search_term)) \<and>
   sorted_wrt (\<lambda>a b. s_created_at b \<le> s_created_at a) (selected st search_term) \<and>
   (search_term = [] \<longrightarrow> mset (selected st search_term) = mset (rows st)) \<and>
   (search_term \<noteq> [] \<longrightarrow>
      mset (selected st search_term) =
        mset (filter (\<lambda>r. ci_substring search_term (s_name (s_content r)) \<or>
                           ci_substring search_term (s_user_prompt (s_content r)) \<or>
                           ci_substring search_term (s_tags (s_content r))) (rows st)))"
proof -
  have "matches search_term = (\<lambda>r. ci_substring search_term (s_name (s_content r)) \<or>
                           ci_substring search_term (s_user_prompt (s_content r)) \<or>
                           ci_substring search_term (s_tags (s_content r)))"
    by (rule ext) (simp add: matches_def contains_ci_iff)
  then show ?thesis
    by (simp add: update_snapshots_table_def get_snapshots_def each_first_six_summary
        selected_def newest_first_sorted newest_first_mset)
qed

theorem list_snapshots_witness:
  "update_snapshots_table (get_snapshots 10 s3) (lit ''MATH'') =
     Inr [[PInt 1, PStr (lit ''first''), PInt 100, PStr (lit ''Gemini 2.0 Flash''),
           PStr (lit ''What is 2+''), PStr (lit ''math, easy'')]] \<and>
   map s_id (selected s3 []) = [2, 3, 1]"
proof -
  have a: "selected s3 (lit ''MATH'') = [\<lparr>s_id = 1, s_created_at = 100,
     s_content = stub_fields (lit ''first'') (lit ''What is 2+2?'') (lit ''math, easy'')\<rparr>]"
    by (simp add: s3_eq selected_def newest_first_def matches_def contains_ci_def lower_def
        stub_fields_def lit_def)
  have b: "map s_id (selected s3 []) = [2, 3, 1]"
    by (simp add: s3_eq selected_def newest_first_def)
  from list_snapshots [of 10 s3 "lit ''MATH''"] a b show ?thesis
    by (simp add: summary_def stub_fields_def lit_def)
qed

section \<open>Results about load\_snapshot\_by\_id\<close>

lemma nine_none_shape: "length (nine_none s) = 10 \<and> last (nine_none s) = PStr s"
  by (simp add: nine_none_def)

text \<open>
  C9, as the code has it. \<open>load_snapshot_by_id\<close> always returns a list of ten elements
  whose last one is a status text; it has no failure. The test of line 121 is Python's
  \<open>not snapshot_id\<close>, so the empty ids are \<open>None\<close>, the empty string and also the number
  0: each gives nine \<open>None\<close> and "Please enter a snapshot ID to load". An id that is not
  empty and on which \<open>int\<close> raises \<open>ValueError\<close> gives nine \<open>None\<close> and "Invalid Snapshot
  ID. Please enter a numeric ID."; an id that is not empty (so not the number 0) and is
  a number without a record gives nine \<open>None\<close> and "Snapshot not found"; and a record
  that is found gives its nine fields and the check mark with " Snapshot loaded
  successfully". An exception of the lookup gives nine \<open>None\<close> and "Error loading
  snapshot: " with its message.
\<close>

theorem load_snapshot_by_id_cases:
  "length (load_snapshot_by_id int_of_str lookup snapshot_id) = 10 \<and>
   (\<exists>status. last (load_snapshot_by_id int_of_str lookup snapshot_id) = PStr status) \<and>
   (\<not> truthy snapshot_id \<longrightarrow>
      load_snapshot_by_id int_of_str lookup snapshot_id =
        replicate 9 PNone @ [PStr (lit ''Please enter a snapshot ID to load'')]) \<and>
   (truthy snapshot_id \<and> py_int int_of_str snapshot_id = Inl (ValueError m) \<longrightarrow>
      load_snapshot_by_id int_of_str lookup snapshot_id =
        replicate 9 PNone @ [PStr (lit ''Invalid Snapshot ID. Please enter a numeric ID.'')]) \<and>
   (truthy snapshot_id \<and> py_int int_of_str snapshot_id = Inr n \<and> lookup n = Inr None \<longrightarrow>
      load_snapshot_by_id int_of_str lookup snapshot_id =
        replicate 9 PNone @ [PStr (lit ''Snapshot not found'')]) \<and>
   (truthy snapshot_id \<and> py_int int_of_str snapshot_id = Inr n \<and> lookup n = Inl e \<longrightarrow>
      load_snapshot_by_id int_of_str lookup snapshot_id =
        replicate 9 PNone @ [PStr (lit ''Error loading snapshot: '' @ str_exc e)]) \<and>
   (truthy snapshot_id \<and> py_int int_of_str snapshot_id = Inr n \<and> lookup n = Inr (Some d) \<and>
    d \<noteq> [] \<longrightarrow>
      load_snapshot_by_id int_of_str lookup snapshot_id =
        [dict_get d (lit ''snapshot_name'') (PStr []),
         dict_get d (lit ''user_prompt'') (PStr []),
         dict_get d (lit ''system_prompt'') (PStr []),
         dict_get d (lit ''model_name'') (PStr []),
         dict_get d (lit ''cot_prompt'') (PStr []),
         dict_get d (lit ''initial_response'') (PStr []),
         dict_get d (lit ''thinking'') (PStr []),
         dict_get d (lit ''reflection'') (PStr []),
         dict_get d (lit ''final_response'') (PStr []),
         PStr (0x2713 # lit '' Snapshot loaded successfully'')])"
proof (intro conjI impI)
  show "length (load_snapshot_by_id int_of_str lookup snapshot_id) = 10"
    by (simp add: load_snapshot_by_id_def nine_none_shape
        split: sum.splits exc.splits option.splits)
  show "\<exists>status. last (load_snapshot_by_id int_of_str lookup snapshot_id) = PStr status"
    by (simp add: load_snapshot_by_id_def nine_none_shape
        split: sum.splits exc.splits option.splits)
qed (simp_all add: load_snapshot_by_id_def nine_none_def loaded_ok_def)

theorem load_snapshot_by_id_cases_witness:
  "load_snapshot_by_id stub_int stub_lookup PNone =
     replicate 9 PNone @ [PStr (lit ''Please enter a snapshot ID to load'')] \<and>
   load_snapshot_by_id stub_int stub_lookup (PInt 0) =
     replicate 9 PNone @ [PStr (lit ''Please enter a snapshot ID to load'')] \<and>
   load_snapshot_by_id stub_int stub_lookup (PStr []) =
     replicate 9 PNone @ [PStr (lit ''Please enter a snapshot ID to load'')] \<and>
   load_snapshot_by_id stub_int stub_lookup (PStr (lit ''abc'')) =
     replicate 9 PNone @ [PStr (lit ''Invalid Snapshot ID. Please enter a numeric ID.'')] \<and>
   load_snapshot_by_id stub_int stub_lookup (PStr (lit ''7'')) =
     replicate 9 PNone @ [PStr (lit ''Snapshot not found'')] \<and>
   load_snapshot_by_id stub_int stub_lookup (PInt 9) =
     replicate 9 PNone @ [PStr (lit ''Error loading snapshot: database is locked'')] \<and>
   load_snapshot_by_id stub_int stub_lookup (PInt 1) =
     [PStr (lit ''first''), PStr (lit ''What is 2+2?''), PStr [], PStr [], PNone,
      PStr [], PStr [], PStr [], PStr [],
      PStr (0x2713 # lit '' Snapshot loaded successfully'')]"
proof -
  note T = load_snapshot_by_id_cases [of stub_int stub_lookup]
  have 1: "load_snapshot_by_id stub_int stub_lookup PNone =
     replicate 9 PNone @ [PStr (lit ''Please enter a snapshot ID to load'')]"
    using T [of PNone] by simp
  have 0: "load_snapshot_by_id stub_int stub_lookup (PInt 0) =
     replicate 9 PNone @ [PStr (lit ''Please enter a snapshot ID to load'')]"
    using T [of "PInt 0"] by simp
  have 2: "load_snapshot_by_id stub_int stub_lookup (PStr []) =
     replicate 9 PNone @ [PStr (lit ''Please enter a snapshot ID to load'')]"
    using T [of "PStr []"] by simp
  have 3: "load_snapshot_by_id stub_int stub_lookup (PStr (lit ''abc'')) =
     replicate 9 PNone @ [PStr (lit ''Invalid Snapshot ID. Please enter a numeric ID.'')]"
    using T [of "PStr (lit ''abc'')" "lit ''invalid literal for int() with base 10''"]
    by (simp add: stub_int_def lit_def)
  have 4: "load_snapshot_by_id stub_int stub_lookup (PStr (lit ''7'')) =
     replicate 9 PNone @ [PStr (lit ''Snapshot not found'')]"
    using T [of "PStr (lit ''7'')" _ 7]
    by (simp add: stub_int_def lit_def stub_lookup_def)
  have 5: "load_snapshot_by_id stub_int stub_lookup (PInt 9) =
     replicate 9 PNone @ [PStr (lit ''Error loading snapshot: database is locked'')]"
    using T [of "PInt 9" _ 9 "OtherError (lit ''database is locked'')"]
    by (simp add: stub_lookup_def lit_def)
  have 6: "load_snapshot_by_id stub_int stub_lookup (PInt 1) =
     [PStr (lit ''first''), PStr (lit ''What is 2+2?''), PStr [], PStr [], PNone,
      PStr [], PStr [], PStr [], PStr [],
      PStr (0x2713 # lit '' Snapshot loaded successfully'')]"
    using T [of "PInt 1" _ 1 _ "[(lit ''snapshot_name'', PStr (lit ''first'')),
                   (lit ''user_prompt'', PStr (lit ''What is 2+2?'')),
                   (lit ''cot_prompt'', PNone)]"]
    by (simp add: stub_lookup_def dict_get_def lit_def)
  from 0 1 2 3 4 5 6 show ?thesis by blast
qed

text \<open>
  C9, as it is stated, fails at the number 0: it is a numeric id (\<open>int\<close> returns 0) and no
  record has it, yet the answer is the one for an empty id and not "Snapshot not found".
\<close>

theorem load_snapshot_by_id_zero_counterexample:
  "py_int stub_int (PInt 0) = Inr 0 \<and> stub_lookup 0 = Inr None \<and>
   load_snapshot_by_id stub_int stub_lookup (PInt 0) =
     replicate 9 PNone @ [PStr (lit ''Please enter a snapshot ID to load'')] \<and>
   load_snapshot_by_id stub_int stub_lookup (PInt 0) \<noteq>
     replicate 9 PNone @ [PStr (lit ''Snapshot not found'')]"
  by (simp add: load_snapshot_by_id_def nine_none_def stub_lookup_def lit_def)

end
